theory Spec2Isabelle
  imports
    Main
    "HOL-Library.Word"
    "HOL-Library.Log_Nat"
    "HOL-Library.Char_ord"
    "HOL-Library.List_Lexorder"
begin

section \<open>JavaScript numbers\<close>

text \<open>
  The arithmetic of \<open>getCoinData\<close> is done on JavaScript numbers, that is
  on IEEE 754 binary64 values with round-to-nearest, ties-to-even. A number is
  modelled by the rational it denotes, or one of the three special values.
  The sign of zero is not represented: every number \<open>getCoinData\<close> computes
  comes from unsigned integers by multiplication and division.
\<close>

datatype number = Fin rat | PosInf | NegInf | NaN

text \<open>Rounding a rational to the nearest integer, ties to the even neighbour.\<close>

definition roundHalfEven :: "rat \<Rightarrow> int" where
  "roundHalfEven x =
     (let f = \<lfloor>x\<rfloor>; d = x - of_int f
      in if d < 1 / 2 then f
         else if 1 / 2 < d then f + 1
         else if even f then f else f + 1)"

text \<open>The binary exponent of a positive rational: \<open>2 powi flog2 a \<le> a < 2 powi (flog2 a + 1)\<close>.\<close>

definition flog2 :: "rat \<Rightarrow> int" where
  "flog2 a =
     (let (p, q) = quotient_of a; k = bitlen p - bitlen q
      in if 2 powi k \<le> a then k else k - 1)"

text \<open>
  Rounding to binary64: 53 significant bits, the least exponent of a normal
  number is \<open>-1022\<close> (below it the spacing stays \<open>2 powi (-1074)\<close>), and a
  rounded magnitude of \<open>2 powi 1024\<close> or more overflows to infinity.
\<close>

definition roundDouble :: "rat \<Rightarrow> number" where
  "roundDouble x =
     (if x = 0 then Fin 0
      else
        let a = \<bar>x\<bar>;
            e = max (flog2 a) (- 1022);
            m = roundHalfEven (a * 2 powi (52 - e));
            r = of_int m * 2 powi (e - 52)
        in if 2 powi 1024 \<le> r then (if 0 < x then PosInf else NegInf)
           else Fin (sgn x * r))"

text \<open>The operator \<open>*\<close> on numbers.\<close>

fun mulN :: "number \<Rightarrow> number \<Rightarrow> number" where
  "mulN NaN _ = NaN"
| "mulN _ NaN = NaN"
| "mulN (Fin a) (Fin b) = roundDouble (a * b)"
| "mulN (Fin a) PosInf = (if a = 0 then NaN else if 0 < a then PosInf else NegInf)"
| "mulN (Fin a) NegInf = (if a = 0 then NaN else if 0 < a then NegInf else PosInf)"
| "mulN PosInf (Fin b) = (if b = 0 then NaN else if 0 < b then PosInf else NegInf)"
| "mulN NegInf (Fin b) = (if b = 0 then NaN else if 0 < b then NegInf else PosInf)"
| "mulN PosInf PosInf = PosInf"
| "mulN PosInf NegInf = NegInf"
| "mulN NegInf PosInf = NegInf"
| "mulN NegInf NegInf = PosInf"

text \<open>The operator \<open>/\<close> on numbers; a zero divisor is the positive zero.\<close>

fun divN :: "number \<Rightarrow> number \<Rightarrow> number" where
  "divN NaN _ = NaN"
| "divN _ NaN = NaN"
| "divN (Fin a) (Fin b) =
     (if b = 0 then (if a = 0 then NaN else if 0 < a then PosInf else NegInf)
      else roundDouble (a / b))"
| "divN (Fin a) PosInf = Fin 0"
| "divN (Fin a) NegInf = Fin 0"
| "divN PosInf (Fin b) = (if 0 \<le> b then PosInf else NegInf)"
| "divN NegInf (Fin b) = (if 0 \<le> b then NegInf else PosInf)"
| "divN PosInf PosInf = NaN"
| "divN PosInf NegInf = NaN"
| "divN NegInf PosInf = NaN"
| "divN NegInf NegInf = NaN"

text \<open>
  \<open>Number(v)\<close> for a BigInt \<open>v \<ge> 0\<close> and for the decimal string of an
  unsigned integer: the nearest number.
\<close>

definition numberOfNat :: "nat \<Rightarrow> number" where
  "numberOfNat n = roundDouble (of_nat n)"

text \<open>\<open>a || 0\<close> on numbers: \<open>0\<close> and \<open>NaN\<close> are the falsy numbers.\<close>

definition orZero :: "number \<Rightarrow> number" where
  "orZero a = (if a = Fin 0 \<or> a = NaN then Fin 0 else a)"

text \<open>
  \<open>Number(formatEther(v))\<close>: viem's \<open>formatEther\<close> writes \<open>v / 10^18\<close> as an
  exact decimal string, and \<open>Number\<close> reads a decimal string as the nearest
  number.
\<close>

definition numberOfEther :: "nat \<Rightarrow> number" where
  "numberOfEther v = roundDouble (of_nat v / 10 ^ 18)"

text \<open>The numeric literals \<open>1e18\<close> and \<open>0.1\<close>, and the constant \<open>2 ** 192\<close>.\<close>

definition lit_1e18 :: number where
  "lit_1e18 = roundDouble (10 ^ 18)"

definition lit_0_1 :: number where
  "lit_0_1 = roundDouble (1 / 10)"

definition two_pow_192 :: number where
  "two_pow_192 = roundDouble (2 ^ 192)"

text \<open>
  \<open>x ** 2\<close>: ECMAScript leaves \<open>**\<close> implementation-approximated; V8 and
  the other engines compute the exponent \<open>2\<close> as the rounded product \<open>x * x\<close>.
\<close>

definition squareN :: "number \<Rightarrow> number" where
  "squareN x = mulN x x"

section \<open>Strings\<close>

text \<open>
  Addresses are ASCII strings (hexadecimal behind \<open>0x\<close>), compared by \<open><\<close>
  code unit by code unit (a proper prefix is smaller), which is the order of
  \<open>HOL-Library.List_Lexorder\<close> over \<open>HOL-Library.Char_ord\<close>. On ASCII,
  \<open>toLowerCase\<close> changes the 26 capital letters only.
\<close>

definition lowerChar :: "char \<Rightarrow> char" where
  "lowerChar c =
     (let n = (of_char c :: nat) in if 65 \<le> n \<and> n \<le> 90 then char_of (n + 32) else c)"

definition toLowerCase :: "string \<Rightarrow> string" where
  "toLowerCase s = map lowerChar s"

text \<open>
  The symbol is free text typed by the user: a JavaScript string, that is a
  sequence of UTF-16 code units. \<open>units\<close> reads an ASCII literal as such a
  string.
\<close>

type_synonym code_unit = "16 word"

type_synonym jsstring = "code_unit list"

definition units :: "string \<Rightarrow> jsstring" where
  "units s = map (\<lambda>c. of_nat (of_char c)) s"

definition isAscii :: "jsstring \<Rightarrow> bool" where
  "isAscii s = list_all (\<lambda>c. c < 128) s"

definition upperUnit :: "code_unit \<Rightarrow> code_unit" where
  "upperUnit c = (if 97 \<le> c \<and> c \<le> 122 then c - 32 else c)"

text \<open>
  \<open>String.prototype.toUpperCase\<close>. On an ASCII string it changes the 26
  small letters, one code unit for one. On any other string it follows the
  Unicode case mappings of the engine (which may change the length, as for
  the sharp s); these tables are no part of the repository, and the
  conversion of such strings is the parameter \<open>unicode\<close>.
\<close>

definition toUpperCase :: "(jsstring \<Rightarrow> jsstring) \<Rightarrow> jsstring \<Rightarrow> jsstring" where
  "toUpperCase unicode s = (if isAscii s then map upperUnit s else unicode s)"

text \<open>
  Equal but for letter case, as the spec's \<open>case-insensitive\<close> reads on ASCII:
  position by position the same code unit, or a small letter and its capital.
\<close>

definition caseVariant :: "code_unit \<Rightarrow> code_unit \<Rightarrow> bool" where
  "caseVariant c d \<longleftrightarrow>
     c = d \<or> (97 \<le> c \<and> c \<le> 122 \<and> d = c - 32) \<or> (97 \<le> d \<and> d \<le> 122 \<and> c = d - 32)"

definition sameIgnoringCase :: "jsstring \<Rightarrow> jsstring \<Rightarrow> bool" where
  "sameIgnoringCase s t = list_all2 caseVariant s t"

definition caseVariantChar :: "char \<Rightarrow> char \<Rightarrow> bool" where
  "caseVariantChar c d \<longleftrightarrow>
     (let m = (of_char c :: nat); n = (of_char d :: nat)
      in m = n \<or> (65 \<le> m \<and> m \<le> 90 \<and> n = m + 32) \<or> (65 \<le> n \<and> n \<le> 90 \<and> m = n + 32))"

definition sameAddressIgnoringCase :: "string \<Rightarrow> string \<Rightarrow> bool" where
  "sameAddressIgnoringCase s t = list_all2 caseVariantChar s t"

section \<open>Configuration\<close>

definition ZORA_SUBGRAPH_URL :: string where
  "ZORA_SUBGRAPH_URL = ''https://api.zora.co/graphql''"

definition UNISWAP_V3_FACTORY_ADDRESS :: string where
  "UNISWAP_V3_FACTORY_ADDRESS = ''0x1F98431c8aD98523631AE4a59f267346ea31F984''"

definition WETH_ADDRESS :: string where
  "WETH_ADDRESS = ''0x4200000000000000000000000000000000000006''"

definition ZERO_ADDRESS :: string where
  "ZERO_ADDRESS = ''0x0000000000000000000000000000000000000000''"

section \<open>The outside world\<close>

text \<open>
  The calls the service makes: a GraphQL \<open>request\<close> (endpoint, operation,
  variables) and a \<open>publicClient.readContract\<close> (contract address, function
  name, arguments). Every function of the pipeline returns the calls it
  issued, in order, beside its result.
\<close>

datatype arg = Str string | Num nat

datatype call =
    Request string string "(string \<times> jsstring) list"
  | ReadContract string string "arg list"

text \<open>
  What the subgraph holds for a coin: \<open>totalSupply\<close> and \<open>holderCount\<close>, both
  unsigned integers (sent as decimal strings).
\<close>

record coin_meta =
  meta_totalSupply :: nat
  meta_holderCount :: nat

text \<open>
  The answers of the two collaborators; \<open>None\<close> is a call that throws (a
  rejected promise). \<open>findCoinBySymbol\<close> answers the query \<open>GetCoinBySymbol\<close>
  with the addresses of the coins found, \<open>getCoinMeta\<close> answers
  \<open>GetCoinData\<close>; \<open>readPoolAddress\<close>, \<open>readSlot0\<close> and \<open>readLiquidity\<close>
  answer the contract reads \<open>getPool\<close> (\<open>address\<close>), \<open>slot0\<close> (its field
  \<open>sqrtPriceX96\<close>, a \<open>uint160\<close>) and \<open>liquidity\<close> (\<open>uint128\<close>).
  \<open>unicodeToUpperCase\<close> is the engine's \<open>toUpperCase\<close> on the strings
  that are not ASCII.
\<close>

record world =
  unicodeToUpperCase :: "jsstring \<Rightarrow> jsstring"
  findCoinBySymbol :: "jsstring \<Rightarrow> string list option"
  getCoinMeta :: "string \<Rightarrow> coin_meta list option"
  readPoolAddress :: "string \<Rightarrow> string \<Rightarrow> string \<Rightarrow> nat \<Rightarrow> string option"
  readSlot0 :: "string \<Rightarrow> 160 word option"
  readLiquidity :: "string \<Rightarrow> 128 word option"

section \<open>The pipeline\<close>

record coin_stats =
  price :: number
  volume24h :: number
  liquidity :: number
  holderCount :: number
  marketCap :: number

text \<open>\<open>getCoinAddressBySymbol\<close> (lines 123-141).\<close>

definition getCoinAddressBySymbol :: "world \<Rightarrow> jsstring \<Rightarrow> call list \<times> string option" where
  "getCoinAddressBySymbol w symbol =
     (let v = toUpperCase (unicodeToUpperCase w) symbol
      in ([Request ZORA_SUBGRAPH_URL ''GetCoinBySymbol'' [(''symbol'', v)]],
          case findCoinBySymbol w v of
            None \<Rightarrow> None
          | Some [] \<Rightarrow> None
          | Some (address # _) \<Rightarrow> Some address))"

text \<open>
  The ordering of lines 209-212, with the constant \<open>WETH_ADDRESS\<close> as the
  second argument: the smaller lowercase string comes first.
\<close>

definition canonicalOrder :: "string \<Rightarrow> string \<Rightarrow> string \<times> string" where
  "canonicalOrder tokenAddress weth =
     (if toLowerCase tokenAddress < toLowerCase weth
      then (tokenAddress, weth) else (weth, tokenAddress))"

text \<open>The arguments of the \<open>getPool\<close> call (line 230).\<close>

definition getPoolArgs :: "string \<Rightarrow> string \<times> string" where
  "getPoolArgs tokenAddress =
     (let (token0, token1) = canonicalOrder tokenAddress WETH_ADDRESS
      in (''0x'' @ token0, ''0x'' @ token1))"

text \<open>\<open>getUniswapV3PoolAddress\<close> (lines 204-240).\<close>

definition getUniswapV3PoolAddress :: "world \<Rightarrow> string \<Rightarrow> call list \<times> string option" where
  "getUniswapV3PoolAddress w tokenAddress =
     (let (a0, a1) = getPoolArgs tokenAddress
      in ([ReadContract UNISWAP_V3_FACTORY_ADDRESS ''getPool'' [Str a0, Str a1, Num 3000]],
          case readPoolAddress w UNISWAP_V3_FACTORY_ADDRESS a0 a1 3000 of
            None \<Rightarrow> None
          | Some poolAddress \<Rightarrow>
              if poolAddress = ZERO_ADDRESS then None else Some poolAddress))"

text \<open>The calculation of \<open>getCoinData\<close> (lines 182-196).\<close>

definition computeStats :: "160 word \<Rightarrow> 128 word \<Rightarrow> number \<Rightarrow> number \<Rightarrow> coin_stats" where
  "computeStats sqrtPriceX96 liq totalSupply holders =
     (let p = mulN (divN (squareN (numberOfNat (unat sqrtPriceX96))) two_pow_192) lit_1e18;
          liquidityEth = mulN (numberOfEther (unat liq)) p;
          vol = mulN liquidityEth lit_0_1;
          cap = mulN p totalSupply
      in \<lparr>price = p, volume24h = vol, liquidity = liquidityEth,
          holderCount = holders, marketCap = cap\<rparr>)"

text \<open>The supply in whole coins, \<open>Number(totalSupply) / 1e18\<close> (line 160).\<close>

definition humanSupply :: "nat \<Rightarrow> number" where
  "humanSupply totalSupply = divN (numberOfNat totalSupply) lit_1e18"

text \<open>The metadata query of \<open>getCoinData\<close> (lines 147-157).\<close>

definition requestCoinData :: "world \<Rightarrow> string \<Rightarrow> call list \<times> coin_meta list option" where
  "requestCoinData w coinAddress =
     (let a = toLowerCase coinAddress
      in ([Request ZORA_SUBGRAPH_URL ''GetCoinData'' [(''address'', units a)]],
          getCoinMeta w a))"

text \<open>
  \<open>getCoinData\<close> (lines 144-201). Every failure is the same \<open>null\<close>: no
  coin for the address, no pool, or a call that throws. The two pool reads
  are both issued before either is awaited.
\<close>

definition getCoinData :: "world \<Rightarrow> string \<Rightarrow> call list \<times> coin_stats option" where
  "getCoinData w coinAddress =
     (let (q, coinData) = requestCoinData w coinAddress
      in case coinData of
           None \<Rightarrow> (q, None)
         | Some [] \<Rightarrow> (q, None)
         | Some (coin # _) \<Rightarrow>
            (let totalSupply = humanSupply (meta_totalSupply coin);
                 holders = orZero (numberOfNat (meta_holderCount coin));
                 (t, pool) = getUniswapV3PoolAddress w coinAddress
             in case pool of
                  None \<Rightarrow> (q @ t, None)
                | Some poolAddress \<Rightarrow>
                   (if poolAddress = [] then (q @ t, None)
                    else
                     (let pa = ''0x'' @ poolAddress;
                          r = [ReadContract pa ''slot0'' [], ReadContract pa ''liquidity'' []]
                      in case (readSlot0 w pa, readLiquidity w pa) of
                           (Some sqrtPriceX96, Some liq) \<Rightarrow>
                             (q @ t @ r,
                              Some (computeStats sqrtPriceX96 liq totalSupply holders))
                         | _ \<Rightarrow> (q @ t @ r, None)))))"

text \<open>
  The route \<open>GET /image/:symbol\<close> (lines 100-120), on the decoded symbol. Its
  answer is a text with a status, or the image of the stats (the HTML around
  them is left out).
\<close>

datatype response = Text string nat | Image jsstring coin_stats

definition imageRoute :: "world \<Rightarrow> jsstring \<Rightarrow> call list \<times> response" where
  "imageRoute w symbol =
     (let (t1, coinAddress) = getCoinAddressBySymbol w symbol
      in case coinAddress of
           None \<Rightarrow> (t1, Text ''Coin not found'' 404)
         | Some a \<Rightarrow>
            (if a = [] then (t1, Text ''Coin not found'' 404)
             else
              (let (t2, d) = getCoinData w a
               in case d of
                    None \<Rightarrow> (t1 @ t2, Text ''Error fetching data'' 500)
                  | Some stats \<Rightarrow> (t1 @ t2, Image symbol stats))))"

section \<open>Fixtures\<close>

text \<open>
  A world with one coin, \<open>PULSE\<close>, two whole coins in supply, whose pool
  against WETH has the price ratio \<open>1\<close> (\<open>sqrtPriceX96 = 2^96\<close>) and five
  whole units of liquidity. Its engine knows two letters outside ASCII: the
  capital of U+00E9 is U+00C9 and the capital of the sharp s, U+00DF, is
  \<open>SS\<close>.
\<close>

definition sampleUnicodeUpper :: "jsstring \<Rightarrow> jsstring" where
  "sampleUnicodeUpper s =
     concat (map (\<lambda>c. if c = 0xDF then [0x53, 0x53] else if c = 0xE9 then [0xC9]
                         else [upperUnit c]) s)"

definition pulseAddress :: string where
  "pulseAddress = ''0xC0ffee0000000000000000000000000000000001''"

definition pulsePool :: string where
  "pulsePool = ''0x9999999999999999999999999999999999999999''"

definition fixtureWorld :: world where
  "fixtureWorld =
     \<lparr>unicodeToUpperCase = sampleUnicodeUpper,
      findCoinBySymbol = (\<lambda>s. if s = units ''PULSE'' then Some [pulseAddress] else Some []),
      getCoinMeta = (\<lambda>a. if a = toLowerCase pulseAddress
         then Some [\<lparr>meta_totalSupply = 2 * 10 ^ 18, meta_holderCount = 7\<rparr>] else Some []),
      readPoolAddress = (\<lambda>f t0 t1 fee.
         if f = UNISWAP_V3_FACTORY_ADDRESS \<and> t0 = ''0x'' @ WETH_ADDRESS
            \<and> t1 = ''0x'' @ pulseAddress \<and> fee = 3000
         then Some pulsePool else Some ZERO_ADDRESS),
      readSlot0 = (\<lambda>p. if p = ''0x'' @ pulsePool then Some (2 ^ 96) else None),
      readLiquidity = (\<lambda>p. if p = ''0x'' @ pulsePool then Some (5 * 10 ^ 18) else None)\<rparr>"

text \<open>The same world with no pool for any pair.\<close>

definition worldNoPool :: world where
  "worldNoPool = fixtureWorld\<lparr>readPoolAddress := (\<lambda>f t0 t1 fee. Some ZERO_ADDRESS)\<rparr>"

text \<open>The same world with a \<open>slot0\<close> read that throws.\<close>

definition worldReadFails :: world where
  "worldReadFails = fixtureWorld\<lparr>readSlot0 := (\<lambda>p. None)\<rparr>"

text \<open>The same world with a subgraph whose metadata query throws.\<close>

definition worldSubgraphDown :: world where
  "worldSubgraphDown = fixtureWorld\<lparr>getCoinMeta := (\<lambda>a. None)\<rparr>"

text \<open>The same world with an empty pool.\<close>

definition worldZeroLiquidity :: world where
  "worldZeroLiquidity = fixtureWorld\<lparr>readLiquidity := (\<lambda>p. Some 0)\<rparr>"

text \<open>The same world with no coin in supply.\<close>

definition worldZeroSupply :: world where
  "worldZeroSupply = fixtureWorld\<lparr>getCoinMeta :=
     (\<lambda>a. Some [\<lparr>meta_totalSupply = 0, meta_holderCount = 7\<rparr>])\<rparr>"

text \<open>
  Another world that agrees with the fixture on the four values read
  (\<open>sqrtPriceX96\<close>, \<open>liquidity\<close>, \<open>totalSupply\<close>, \<open>holderCount\<close>) and on
  nothing else: another coin address, another pool, other coins behind it.
\<close>

definition otherAddress :: string where
  "otherAddress = ''0x1111111111111111111111111111111111111111''"

definition otherPool :: string where
  "otherPool = ''0x7777777777777777777777777777777777777777''"

definition otherWorld :: world where
  "otherWorld =
     \<lparr>unicodeToUpperCase = (\<lambda>s. s),
      findCoinBySymbol = (\<lambda>s. None),
      getCoinMeta = (\<lambda>a. Some [\<lparr>meta_totalSupply = 2 * 10 ^ 18, meta_holderCount = 7\<rparr>,
                                \<lparr>meta_totalSupply = 1, meta_holderCount = 1\<rparr>]),
      readPoolAddress = (\<lambda>f t0 t1 fee. Some otherPool),
      readSlot0 = (\<lambda>p. Some (2 ^ 96)),
      readLiquidity = (\<lambda>p. Some (5 * 10 ^ 18))\<rparr>"

section \<open>Rounding\<close>

text \<open>The exponent found is not above the number.\<close>

lemma flog2_le:
  assumes "0 < a"
  shows "2 powi (flog2 a) \<le> a"
proof -
  obtain p q where pq: "quotient_of a = (p, q)" by (cases "quotient_of a")
  have q: "0 < q" using quotient_of_denom_pos [OF pq] .
  have a: "a = of_int p / of_int q" using quotient_of_div [OF pq] .
  have p: "0 < p" using assms q a by (simp add: zero_less_divide_iff)
  let ?k = "bitlen p - bitlen q"
  show ?thesis
  proof (cases "2 powi ?k \<le> a")
    case True
    then show ?thesis by (simp add: flog2_def pq)
  next
    case False
    have bp: "1 \<le> bitlen p" using p by (simp add: bitlen_alt_def)
    have bq: "1 \<le> bitlen q" using q by (simp add: bitlen_alt_def)
    have lo: "(2::int) ^ nat (bitlen p - 1) \<le> p" using bitlen_bounds [OF p] by simp
    have hi: "q < (2::int) ^ nat (bitlen q)" using bitlen_bounds [OF q] by simp
    have lo': "(2::rat) ^ nat (bitlen p - 1) \<le> of_int p"
      using lo by (metis of_int_le_iff of_int_numeral of_int_power)
    have hi': "of_int q \<le> (2::rat) ^ nat (bitlen q)"
      using hi by (metis less_imp_le of_int_le_iff of_int_numeral of_int_power)
    have "(2::rat) powi ((bitlen p - 1) - bitlen q) = 2 powi (bitlen p - 1) / 2 powi (bitlen q)"
      by (rule power_int_diff) simp
    moreover have "?k - 1 = (bitlen p - 1) - bitlen q" by simp
    ultimately have "(2::rat) powi (?k - 1) = 2 powi (bitlen p - 1) / 2 powi (bitlen q)"
      by (simp only:)
    also have "\<dots> = 2 ^ nat (bitlen p - 1) / 2 ^ nat (bitlen q)"
      using bp bq by (simp add: power_int_def)
    also have "\<dots> \<le> of_int p / of_int q"
      using lo' hi' q p by (intro frac_le) auto
    finally have "(2::rat) powi (?k - 1) \<le> a" using a by simp
    with False show ?thesis by (simp add: flog2_def pq)
  qed
qed

lemma roundHalfEven_le:
  assumes "x \<le> of_int n"
  shows "roundHalfEven x \<le> n"
proof -
  have f: "\<lfloor>x\<rfloor> \<le> n" using assms by (simp add: floor_le_iff) 
  show ?thesis
  proof (cases "x = of_int \<lfloor>x\<rfloor>")
    case True
    then have "x - of_int \<lfloor>x\<rfloor> = 0" by simp
    then show ?thesis using f by (simp add: roundHalfEven_def Let_def)
  next
    case False
    then have "of_int \<lfloor>x\<rfloor> < x" using of_int_floor_le [of x] by linarith
    then have "of_int \<lfloor>x\<rfloor> < (of_int n :: rat)" using assms by linarith
    then have "\<lfloor>x\<rfloor> < n" by simp
    then show ?thesis by (simp add: roundHalfEven_def Let_def)
  qed
qed

lemma roundHalfEven_nonneg:
  assumes "0 \<le> x"
  shows "0 \<le> roundHalfEven x"
proof -
  have "0 \<le> \<lfloor>x\<rfloor>" using assms by simp
  then show ?thesis by (simp add: roundHalfEven_def Let_def)
qed

lemma roundDouble_bounded:
  assumes "0 \<le> x" and "x \<le> 2 ^ k" and "k \<le> 1023"
  shows "\<exists>r. roundDouble x = Fin r \<and> 0 \<le> r \<and> r \<le> 2 ^ k"
proof (cases "x = 0")
  case True
  then show ?thesis by (simp add: roundDouble_def)
next
  case False
  with assms have pos: "0 < x" by simp
  define e where "e = max (flog2 x) (- 1022)"
  define m where "m = roundHalfEven (x * 2 powi (52 - e))"
  define r :: rat where "r = of_int m * 2 powi (e - 52)"
  have "(2::rat) powi (flog2 x) \<le> 2 powi (int k)"
    using flog2_le [OF pos] assms(2) by simp
  then have "flog2 x \<le> int k"
    by (rule power_int_le_imp_le_exp [rotated]) simp_all
  then have ek: "e \<le> int k" by (simp add: e_def)
  define j where "j = nat (int k + 52 - e)"
  have j: "int j = int k + 52 - e" using ek by (simp add: j_def)
  have j1: "int k + (52 - e) = int j" using j by simp
  have j2: "int j + (e - 52) = int k" using j by simp
  have "x * 2 powi (52 - e) \<le> 2 ^ k * 2 powi (52 - e)"
    using assms(2) by (simp add: mult_right_mono)
  also have "\<dots> = 2 powi (int k + (52 - e))"
    by (simp add: power_int_add)
  also have "\<dots> = 2 powi (int j)" by (simp only: j1)
  also have "\<dots> = of_int (2 ^ j)" by simp
  finally have "m \<le> 2 ^ j" unfolding m_def by (rule roundHalfEven_le)
  then have "(of_int m :: rat) \<le> 2 ^ j"
    by (metis of_int_le_iff of_int_numeral of_int_power)
  then have "r \<le> 2 ^ j * 2 powi (e - 52)"
    unfolding r_def by (simp add: mult_right_mono)
  also have "\<dots> = 2 powi (int j + (e - 52))"
    by (simp add: power_int_add)
  also have "\<dots> = 2 powi (int k)" by (simp only: j2)
  also have "\<dots> = 2 ^ k" by simp
  finally have rk: "r \<le> 2 ^ k" .
  have "0 \<le> m" unfolding m_def using pos by (intro roundHalfEven_nonneg) simp
  then have r0: "0 \<le> r" unfolding r_def by simp
  have "(2::rat) ^ k \<le> 2 ^ 1023" using assms(3) by (intro power_increasing) simp_all
  also have "\<dots> < 2 powi 1024" by (simp add: power_int_def)
  finally have "r < 2 powi 1024" using rk by simp
  then have "roundDouble x = Fin r"
    using pos by (simp add: roundDouble_def Let_def e_def m_def r_def)
  with r0 rk show ?thesis by blast
qed

section \<open>Numbers in range stay finite\<close>

lemma mulN_commute: "mulN a b = mulN b a"
  by (cases a; cases b) (simp_all add: mult.commute)

lemma mulN_bounded:
  assumes "0 \<le> x" "x \<le> 2 ^ j" "0 \<le> y" "y \<le> 2 ^ k" "j + k \<le> 1023"
  shows "\<exists>r. mulN (Fin x) (Fin y) = Fin r \<and> 0 \<le> r \<and> r \<le> 2 ^ (j + k)"
proof -
  have "x * y \<le> 2 ^ j * 2 ^ k" using assms by (intro mult_mono) simp_all
  then have "x * y \<le> 2 ^ (j + k)" by (simp add: power_add)
  moreover have "0 \<le> x * y" using assms by simp
  ultimately show ?thesis using roundDouble_bounded [of "x * y" "j + k"] assms(5) by simp
qed

lemma lit_1e18_eq: "lit_1e18 = Fin (10 ^ 18)"
  unfolding lit_1e18_def by simp code_simp

lemma two_pow_192_eq: "two_pow_192 = Fin (2 ^ 192)"
  unfolding two_pow_192_def by simp code_simp

lemma lit_0_1_eq: "lit_0_1 = Fin (3602879701896397 / 36028797018963968)"
  unfolding lit_0_1_def by code_simp

lemma numberOfNat_bounded:
  assumes "n \<le> 2 ^ k" "k \<le> 1023"
  shows "\<exists>r. numberOfNat n = Fin r \<and> 0 \<le> r \<and> r \<le> 2 ^ k"
proof -
  have "(of_nat n :: rat) \<le> of_nat (2 ^ k)" using assms(1) by (simp only: of_nat_le_iff)
  then have "(of_nat n :: rat) \<le> 2 ^ k" by simp
  then show ?thesis unfolding numberOfNat_def using assms(2)
    by (intro roundDouble_bounded) simp_all
qed

lemma numberOfEther_bounded:
  assumes "n \<le> 2 ^ k" "k \<le> 1023"
  shows "\<exists>r. numberOfEther n = Fin r \<and> 0 \<le> r \<and> r \<le> 2 ^ k"
proof -
  have "(of_nat n :: rat) \<le> of_nat (2 ^ k)" using assms(1) by (simp only: of_nat_le_iff)
  then have le: "(of_nat n :: rat) \<le> 2 ^ k" by simp
  have "(of_nat n :: rat) / 10 ^ 18 \<le> of_nat n / 1"
    by (intro divide_left_mono) simp_all
  then have "(of_nat n :: rat) / 10 ^ 18 \<le> of_nat n" by (simp only: div_by_1)
  then have "(of_nat n :: rat) / 10 ^ 18 \<le> 2 ^ k" using le by (rule order_trans)
  then show ?thesis unfolding numberOfEther_def using assms(2)
    by (intro roundDouble_bounded) simp_all
qed

lemma price_finite:
  "\<exists>r. mulN (divN (squareN (numberOfNat (unat (sp :: 160 word)))) two_pow_192) lit_1e18 = Fin r
       \<and> 0 \<le> r \<and> r \<le> 2 ^ 188"
proof -
  have "unat sp < 2 ^ 160" using unsigned_less [of sp, where ?'a = nat] by simp
  then have "unat sp \<le> 2 ^ 160" by simp
  then obtain x where x: "numberOfNat (unat sp) = Fin x" "0 \<le> x" "x \<le> 2 ^ 160"
    using numberOfNat_bounded [of "unat sp" 160] by auto
  obtain y where y: "mulN (Fin x) (Fin x) = Fin y" "0 \<le> y" "y \<le> 2 ^ 320"
    using mulN_bounded [of x 160 x 160] x by auto
  have "y / 2 ^ 192 \<le> 2 ^ 320 / 2 ^ 192" using y by (intro divide_right_mono) simp_all
  also have "\<dots> = (2::rat) ^ 128" by (simp flip: power_diff)
  finally have "y / 2 ^ 192 \<le> 2 ^ 128" .
  moreover have "0 \<le> y / 2 ^ 192" using y by simp
  ultimately obtain z where z: "roundDouble (y / 2 ^ 192) = Fin z" "0 \<le> z" "z \<le> 2 ^ 128"
    using roundDouble_bounded [of "y / 2 ^ 192" 128] by auto
  have d: "divN (squareN (numberOfNat (unat sp))) two_pow_192 = Fin z"
    using x y z by (simp add: squareN_def two_pow_192_eq)
  have "(10::rat) ^ 18 \<le> 2 ^ 60" by simp
  then obtain r where r: "mulN (Fin z) (Fin (10 ^ 18)) = Fin r" "0 \<le> r" "r \<le> 2 ^ (128 + 60)"
    using mulN_bounded [of z 128 "10 ^ 18" 60] z by auto
  then show ?thesis using d by (simp add: lit_1e18_eq)
qed

section \<open>Unfolding the pipeline\<close>

text \<open>The definitions to unfold when a fixture is evaluated.\<close>

lemmas world_defs = fixtureWorld_def worldNoPool_def worldReadFails_def worldSubgraphDown_def
  worldZeroLiquidity_def worldZeroSupply_def otherWorld_def pulseAddress_def pulsePool_def
  otherAddress_def otherPool_def sampleUnicodeUpper_def UNISWAP_V3_FACTORY_ADDRESS_def
  WETH_ADDRESS_def ZERO_ADDRESS_def ZORA_SUBGRAPH_URL_def

lemmas str_defs = toLowerCase_def toUpperCase_def lowerChar_def upperUnit_def units_def
  isAscii_def char_of_def bit_Suc_0_iff

lemmas pipe_defs = getCoinData_def requestCoinData_def getUniswapV3PoolAddress_def getPoolArgs_def
  canonicalOrder_def getCoinAddressBySymbol_def imageRoute_def

lemma getUniswapV3PoolAddress_eq:
  "getUniswapV3PoolAddress w t =
     ([ReadContract UNISWAP_V3_FACTORY_ADDRESS ''getPool''
         [Str (fst (getPoolArgs t)), Str (snd (getPoolArgs t)), Num 3000]],
      case readPoolAddress w UNISWAP_V3_FACTORY_ADDRESS (fst (getPoolArgs t))
             (snd (getPoolArgs t)) 3000 of
        None \<Rightarrow> None
      | Some p \<Rightarrow> if p = ZERO_ADDRESS then None else Some p)"
  by (simp add: getUniswapV3PoolAddress_def split: prod.splits)

lemma getCoinData_success:
  assumes "getCoinMeta w (toLowerCase a) = Some (c # cs)"
    and "readPoolAddress w UNISWAP_V3_FACTORY_ADDRESS (fst (getPoolArgs a)) (snd (getPoolArgs a)) 3000
           = Some p"
    and "p \<noteq> ZERO_ADDRESS" and "p \<noteq> []"
    and "readSlot0 w (''0x'' @ p) = Some sp"
    and "readLiquidity w (''0x'' @ p) = Some l"
  shows "snd (getCoinData w a)
           = Some (computeStats sp l (humanSupply (meta_totalSupply c))
                    (orZero (numberOfNat (meta_holderCount c))))"
  using assms
  by (simp add: getCoinData_def requestCoinData_def getUniswapV3PoolAddress_eq Let_def)

lemma getCoinData_SomeD:
  assumes "snd (getCoinData w a) = Some s"
  shows "\<exists>sp l ts h. s = computeStats sp l ts h"
  using assms
  by (auto simp: getCoinData_def requestCoinData_def getUniswapV3PoolAddress_eq Let_def
      split: option.splits list.splits if_splits)

lemma getPoolArgs_eq:
  "getPoolArgs t = (''0x'' @ fst (canonicalOrder t WETH_ADDRESS),
                    ''0x'' @ snd (canonicalOrder t WETH_ADDRESS))"
  by (simp add: getPoolArgs_def split: prod.splits)

section \<open>The pool locator\<close>

text \<open>
  C4. Whatever the token address, \<open>getUniswapV3PoolAddress\<close> never returns
  the zero address as a pool: when the factory answers the zero address the
  result is \<open>null\<close>, and any other address it answers is returned as it is.
\<close>

theorem pool_lookup_zero_is_null:
  "snd (getUniswapV3PoolAddress w t) \<noteq> Some ZERO_ADDRESS \<and>
   (readPoolAddress w UNISWAP_V3_FACTORY_ADDRESS (fst (getPoolArgs t)) (snd (getPoolArgs t)) 3000
      = Some p \<longrightarrow>
    snd (getUniswapV3PoolAddress w t) = (if p = ZERO_ADDRESS then None else Some p))"
  by (simp add: getUniswapV3PoolAddress_eq split: option.splits)

theorem pool_lookup_zero_is_null_witness:
  "readPoolAddress worldNoPool UNISWAP_V3_FACTORY_ADDRESS (fst (getPoolArgs pulseAddress))
     (snd (getPoolArgs pulseAddress)) 3000 = Some ZERO_ADDRESS
   \<and> snd (getUniswapV3PoolAddress worldNoPool pulseAddress) = None
   \<and> readPoolAddress fixtureWorld UNISWAP_V3_FACTORY_ADDRESS (fst (getPoolArgs pulseAddress))
     (snd (getPoolArgs pulseAddress)) 3000 = Some pulsePool
   \<and> snd (getUniswapV3PoolAddress fixtureWorld pulseAddress) = Some pulsePool"
proof -
  have z: "readPoolAddress worldNoPool UNISWAP_V3_FACTORY_ADDRESS (fst (getPoolArgs pulseAddress))
     (snd (getPoolArgs pulseAddress)) 3000 = Some ZERO_ADDRESS"
    by (simp add: worldNoPool_def)
  have f: "readPoolAddress fixtureWorld UNISWAP_V3_FACTORY_ADDRESS (fst (getPoolArgs pulseAddress))
     (snd (getPoolArgs pulseAddress)) 3000 = Some pulsePool"
    by (simp add: world_defs str_defs getPoolArgs_def canonicalOrder_def)
  have n: "pulsePool \<noteq> ZERO_ADDRESS" by (simp add: world_defs)
  from pool_lookup_zero_is_null [where w = worldNoPool and t = pulseAddress and p = ZERO_ADDRESS] z
  have a: "snd (getUniswapV3PoolAddress worldNoPool pulseAddress) = None" by simp
  from pool_lookup_zero_is_null [where w = fixtureWorld and t = pulseAddress and p = pulsePool] f n
  have b: "snd (getUniswapV3PoolAddress fixtureWorld pulseAddress) = Some pulsePool" by simp
  from z a f b show ?thesis by simp
qed

section \<open>Letter case\<close>

lemma upperUnit_eq_iff: "upperUnit c = upperUnit d \<longleftrightarrow> caseVariant c d"
  unfolding upperUnit_def caseVariant_def
  by (auto; unat_arith)

lemma of_char_lowerChar:
  "(of_char (lowerChar c) :: nat)
     = (if 65 \<le> (of_char c :: nat) \<and> (of_char c :: nat) \<le> 90 then of_char c + 32 else of_char c)"
  by (simp add: lowerChar_def Let_def)

lemma lowerChar_eq_iff: "lowerChar c = lowerChar d \<longleftrightarrow> caseVariantChar c d"
proof -
  have "lowerChar c = lowerChar d \<longleftrightarrow> (of_char (lowerChar c) :: nat) = of_char (lowerChar d)"
    by simp
  also have "\<dots> \<longleftrightarrow> caseVariantChar c d"
    unfolding of_char_lowerChar caseVariantChar_def Let_def by auto
  finally show ?thesis .
qed

lemma map_eq_iff_list_all2: "map f xs = map f ys \<longleftrightarrow> list_all2 (\<lambda>x y. f x = f y) xs ys"
  by (induction xs arbitrary: ys) (auto simp: list_all2_Cons1)


lemma toUpperCase_ascii_eq_iff:
  assumes "isAscii s" and "isAscii s'"
  shows "toUpperCase U s = toUpperCase U s' \<longleftrightarrow> sameIgnoringCase s s'"
  using assms
  by (simp add: toUpperCase_def sameIgnoringCase_def map_eq_iff_list_all2 upperUnit_eq_iff)

lemma toLowerCase_eq_iff: "toLowerCase a = toLowerCase a' \<longleftrightarrow> sameAddressIgnoringCase a a'"
  by (simp add: toLowerCase_def sameAddressIgnoringCase_def map_eq_iff_list_all2 lowerChar_eq_iff)

lemma unit_of_char_inject:
  "(of_nat (of_char x) :: 16 word) = of_nat (of_char y) \<longleftrightarrow> x = y"
proof
  assume e: "(of_nat (of_char x) :: 16 word) = of_nat (of_char y)"
  have x: "(of_char x :: nat) < 2 ^ LENGTH(16)"
    by (rule less_trans [OF nat_of_char_less_256], simp)
  have y: "(of_char y :: nat) < 2 ^ LENGTH(16)"
    by (rule less_trans [OF nat_of_char_less_256], simp)
  have "(of_char x :: nat) = unat (of_nat (of_char x) :: 16 word)"
    using of_nat_inverse [OF refl x] by simp
  also have "\<dots> = of_char y" unfolding e using of_nat_inverse [OF refl y] by simp
  finally show "x = y" by simp
qed simp

lemma units_inject: "units a = units b \<longleftrightarrow> a = b"
proof -
  have "inj (\<lambda>c :: char. (of_nat (of_char c) :: 16 word))"
    by (rule injI) (simp add: unit_of_char_inject)
  then show ?thesis unfolding units_def by (simp add: inj_map_eq_map)
qed

section \<open>The ordering of the pair\<close>

text \<open>
  C3. The ordered pair is made of the two addresses given. For two distinct
  addresses (two strings that spell different addresses, letter case aside)
  it does not depend on the order of the arguments and has the address with
  the smaller lowercase string first; a pair already in that order is
  returned as it is. The \<open>getPool\<close> call takes the token and WETH, whichever
  has the smaller lowercase string first, each behind the prefix \<open>0x\<close>,
  which keeps the order.
\<close>

theorem canonical_order_symmetric_idempotent:
  "(toLowerCase a \<noteq> toLowerCase b \<longrightarrow>
      canonicalOrder a b = canonicalOrder b a
      \<and> toLowerCase (fst (canonicalOrder a b)) < toLowerCase (snd (canonicalOrder a b))
      \<and> canonicalOrder (fst (canonicalOrder a b)) (snd (canonicalOrder a b)) = canonicalOrder a b)
   \<and> set [fst (canonicalOrder a b), snd (canonicalOrder a b)] = {a, b}
   \<and> (toLowerCase a < toLowerCase b \<longrightarrow> canonicalOrder a b = (a, b))
   \<and> (toLowerCase b < toLowerCase a \<longrightarrow> canonicalOrder a b = (b, a))
   \<and> fst (getUniswapV3PoolAddress w t)
       = [ReadContract UNISWAP_V3_FACTORY_ADDRESS ''getPool''
           [Str (''0x'' @ fst (canonicalOrder t WETH_ADDRESS)),
            Str (''0x'' @ snd (canonicalOrder t WETH_ADDRESS)), Num 3000]]
   \<and> (toLowerCase t < toLowerCase WETH_ADDRESS \<longrightarrow>
        fst (getUniswapV3PoolAddress w t)
          = [ReadContract UNISWAP_V3_FACTORY_ADDRESS ''getPool''
              [Str (''0x'' @ t), Str (''0x'' @ WETH_ADDRESS), Num 3000]])
   \<and> (toLowerCase WETH_ADDRESS < toLowerCase t \<longrightarrow>
        fst (getUniswapV3PoolAddress w t)
          = [ReadContract UNISWAP_V3_FACTORY_ADDRESS ''getPool''
              [Str (''0x'' @ WETH_ADDRESS), Str (''0x'' @ t), Num 3000]])
   \<and> (toLowerCase t \<noteq> toLowerCase WETH_ADDRESS \<longrightarrow>
        toLowerCase (fst (getPoolArgs t)) < toLowerCase (snd (getPoolArgs t)))"
proof (intro conjI impI)
  assume ne: "toLowerCase a \<noteq> toLowerCase b"
  then show "canonicalOrder a b = canonicalOrder b a"
    by (auto simp: canonicalOrder_def)
  from ne show "toLowerCase (fst (canonicalOrder a b)) < toLowerCase (snd (canonicalOrder a b))"
    by (auto simp: canonicalOrder_def)
  from ne show "canonicalOrder (fst (canonicalOrder a b)) (snd (canonicalOrder a b))
                  = canonicalOrder a b"
    by (auto simp: canonicalOrder_def)
next
  show "set [fst (canonicalOrder a b), snd (canonicalOrder a b)] = {a, b}"
    by (auto simp: canonicalOrder_def)
next
  assume "toLowerCase a < toLowerCase b"
  then show "canonicalOrder a b = (a, b)" by (simp add: canonicalOrder_def)
next
  assume "toLowerCase b < toLowerCase a"
  then show "canonicalOrder a b = (b, a)" by (auto simp: canonicalOrder_def)
next
  show "fst (getUniswapV3PoolAddress w t)
       = [ReadContract UNISWAP_V3_FACTORY_ADDRESS ''getPool''
           [Str (''0x'' @ fst (canonicalOrder t WETH_ADDRESS)),
            Str (''0x'' @ snd (canonicalOrder t WETH_ADDRESS)), Num 3000]]"
    by (simp add: getUniswapV3PoolAddress_eq getPoolArgs_eq)
next
  assume "toLowerCase t < toLowerCase WETH_ADDRESS"
  then show "fst (getUniswapV3PoolAddress w t)
          = [ReadContract UNISWAP_V3_FACTORY_ADDRESS ''getPool''
              [Str (''0x'' @ t), Str (''0x'' @ WETH_ADDRESS), Num 3000]]"
    by (simp add: getUniswapV3PoolAddress_eq getPoolArgs_eq canonicalOrder_def)
next
  assume "toLowerCase WETH_ADDRESS < toLowerCase t"
  then have "\<not> toLowerCase t < toLowerCase WETH_ADDRESS" by auto
  then show "fst (getUniswapV3PoolAddress w t)
          = [ReadContract UNISWAP_V3_FACTORY_ADDRESS ''getPool''
              [Str (''0x'' @ WETH_ADDRESS), Str (''0x'' @ t), Num 3000]]"
    by (simp add: getUniswapV3PoolAddress_eq getPoolArgs_eq canonicalOrder_def)
next
  assume "toLowerCase t \<noteq> toLowerCase WETH_ADDRESS"
  then have "toLowerCase (fst (canonicalOrder t WETH_ADDRESS))
               < toLowerCase (snd (canonicalOrder t WETH_ADDRESS))"
    by (auto simp: canonicalOrder_def)
  then show "toLowerCase (fst (getPoolArgs t)) < toLowerCase (snd (getPoolArgs t))"
    by (simp add: getPoolArgs_eq toLowerCase_def lowerChar_def)
qed

theorem canonical_order_symmetric_idempotent_witness:
  "toLowerCase pulseAddress \<noteq> toLowerCase WETH_ADDRESS
   \<and> toLowerCase WETH_ADDRESS < toLowerCase pulseAddress
   \<and> toLowerCase otherAddress < toLowerCase WETH_ADDRESS
   \<and> canonicalOrder pulseAddress WETH_ADDRESS = (WETH_ADDRESS, pulseAddress)
   \<and> canonicalOrder WETH_ADDRESS pulseAddress = (WETH_ADDRESS, pulseAddress)
   \<and> canonicalOrder otherAddress WETH_ADDRESS = (otherAddress, WETH_ADDRESS)
   \<and> canonicalOrder WETH_ADDRESS otherAddress = (otherAddress, WETH_ADDRESS)
   \<and> fst (getUniswapV3PoolAddress fixtureWorld pulseAddress)
       = [ReadContract UNISWAP_V3_FACTORY_ADDRESS ''getPool''
           [Str (''0x'' @ WETH_ADDRESS), Str (''0x'' @ pulseAddress), Num 3000]]
   \<and> fst (getUniswapV3PoolAddress fixtureWorld otherAddress)
       = [ReadContract UNISWAP_V3_FACTORY_ADDRESS ''getPool''
           [Str (''0x'' @ otherAddress), Str (''0x'' @ WETH_ADDRESS), Num 3000]]
   \<and> toLowerCase (fst (getPoolArgs pulseAddress)) < toLowerCase (snd (getPoolArgs pulseAddress))"
proof -
  have ne: "toLowerCase pulseAddress \<noteq> toLowerCase WETH_ADDRESS"
    by (simp add: world_defs str_defs)
  have lt: "toLowerCase WETH_ADDRESS < toLowerCase pulseAddress"
    by (simp add: world_defs str_defs)
  have lt': "toLowerCase otherAddress < toLowerCase WETH_ADDRESS"
    by (simp add: world_defs str_defs)
  note p = canonical_order_symmetric_idempotent
         [where a = pulseAddress and b = WETH_ADDRESS and t = pulseAddress and w = fixtureWorld]
  note q = canonical_order_symmetric_idempotent
         [where a = WETH_ADDRESS and b = pulseAddress and t = otherAddress and w = fixtureWorld]
  note r = canonical_order_symmetric_idempotent
         [where a = otherAddress and b = WETH_ADDRESS and t = otherAddress and w = fixtureWorld]
  note u = canonical_order_symmetric_idempotent
         [where a = WETH_ADDRESS and b = otherAddress and t = otherAddress and w = fixtureWorld]
  from p lt have e1: "canonicalOrder pulseAddress WETH_ADDRESS = (WETH_ADDRESS, pulseAddress)"
    by blast
  from q lt have e2: "canonicalOrder WETH_ADDRESS pulseAddress = (WETH_ADDRESS, pulseAddress)"
    by blast
  from r lt' have e3: "canonicalOrder otherAddress WETH_ADDRESS = (otherAddress, WETH_ADDRESS)"
    by blast
  from u lt' have e4: "canonicalOrder WETH_ADDRESS otherAddress = (otherAddress, WETH_ADDRESS)"
    by blast
  from p lt have c1: "fst (getUniswapV3PoolAddress fixtureWorld pulseAddress)
       = [ReadContract UNISWAP_V3_FACTORY_ADDRESS ''getPool''
           [Str (''0x'' @ WETH_ADDRESS), Str (''0x'' @ pulseAddress), Num 3000]]"
    by blast
  from r lt' have c2: "fst (getUniswapV3PoolAddress fixtureWorld otherAddress)
       = [ReadContract UNISWAP_V3_FACTORY_ADDRESS ''getPool''
           [Str (''0x'' @ otherAddress), Str (''0x'' @ WETH_ADDRESS), Num 3000]]"
    by blast
  from p ne
  have o: "toLowerCase (fst (getPoolArgs pulseAddress)) < toLowerCase (snd (getPoolArgs pulseAddress))"
    by blast
  from ne lt lt' e1 e2 e3 e4 c1 c2 o show ?thesis by blast
qed

text \<open>Two spellings of one address: the order of the arguments decides.\<close>

lemma canonicalOrder_same_address:
  "canonicalOrder ''0xAB'' ''0xab'' = (''0xab'', ''0xAB'')
   \<and> canonicalOrder ''0xab'' ''0xAB'' = (''0xAB'', ''0xab'')"
  by (simp add: canonicalOrder_def str_defs)

section \<open>The subgraph queries\<close>

text \<open>
  C8. \<open>getCoinAddressBySymbol\<close> issues one query, with the symbol in
  uppercase: on an ASCII symbol every small letter replaced by its capital,
  on any other symbol the engine's conversion. The first call of
  \<open>getCoinData\<close> is its metadata query, with the address in lowercase:
  every capital letter replaced by its small letter. Two symbols give the same
  query exactly when their uppercase forms agree, which on ASCII is when they
  are equal but for letter case, and then the whole lookup (call and result)
  is the same; likewise for two addresses and the metadata lookup.
\<close>

theorem lookups_normalise_case:
  "fst (getCoinAddressBySymbol w s)
     = [Request ZORA_SUBGRAPH_URL ''GetCoinBySymbol''
         [(''symbol'', toUpperCase (unicodeToUpperCase w) s)]]
   \<and> (isAscii s \<longrightarrow>
        length (toUpperCase U s) = length s
        \<and> (\<forall>i<length s. toUpperCase U s ! i
              = (if 97 \<le> s ! i \<and> s ! i \<le> 122 then s ! i - 32 else s ! i)))
   \<and> (\<not> isAscii s \<longrightarrow> toUpperCase U s = U s)
   \<and> (isAscii s \<and> isAscii s' \<longrightarrow>
        (toUpperCase U s = toUpperCase U s' \<longleftrightarrow> sameIgnoringCase s s'))
   \<and> (fst (getCoinAddressBySymbol w s) = fst (getCoinAddressBySymbol w s')
        \<longleftrightarrow> toUpperCase (unicodeToUpperCase w) s = toUpperCase (unicodeToUpperCase w) s')
   \<and> (toUpperCase (unicodeToUpperCase w) s = toUpperCase (unicodeToUpperCase w) s' \<longrightarrow>
        getCoinAddressBySymbol w s = getCoinAddressBySymbol w s')
   \<and> fst (requestCoinData w a)
     = [Request ZORA_SUBGRAPH_URL ''GetCoinData'' [(''address'', units (toLowerCase a))]]
   \<and> snd (requestCoinData w a) = getCoinMeta w (toLowerCase a)
   \<and> take 1 (fst (getCoinData w a)) = fst (requestCoinData w a)
   \<and> length (toLowerCase a) = length a
   \<and> (\<forall>i<length a. toLowerCase a ! i
         = (if 65 \<le> (of_char (a ! i) :: nat) \<and> (of_char (a ! i) :: nat) \<le> 90
            then char_of (of_char (a ! i) + 32 :: nat) else a ! i))
   \<and> (toLowerCase a = toLowerCase a' \<longleftrightarrow> sameAddressIgnoringCase a a')
   \<and> (fst (requestCoinData w a) = fst (requestCoinData w a')
        \<longleftrightarrow> toLowerCase a = toLowerCase a')
   \<and> (toLowerCase a = toLowerCase a' \<longrightarrow> requestCoinData w a = requestCoinData w a')"
proof (intro conjI impI)
  show "take 1 (fst (getCoinData w a)) = fst (requestCoinData w a)"
    by (simp add: getCoinData_def requestCoinData_def getUniswapV3PoolAddress_eq Let_def
        split: option.splits list.splits)
next
  assume "isAscii s"
  then show "length (toUpperCase U s) = length s"
    and "\<forall>i<length s. toUpperCase U s ! i
              = (if 97 \<le> s ! i \<and> s ! i \<le> 122 then s ! i - 32 else s ! i)"
    by (simp_all add: toUpperCase_def upperUnit_def)
next
  assume "isAscii s \<and> isAscii s'"
  then show "toUpperCase U s = toUpperCase U s' \<longleftrightarrow> sameIgnoringCase s s'"
    by (simp add: toUpperCase_ascii_eq_iff)
next
  show "toLowerCase a = toLowerCase a' \<longleftrightarrow> sameAddressIgnoringCase a a'"
    by (rule toLowerCase_eq_iff)
next
  show "fst (requestCoinData w a) = fst (requestCoinData w a')
        \<longleftrightarrow> toLowerCase a = toLowerCase a'"
    by (simp add: requestCoinData_def Let_def units_inject)
next
  show "\<forall>i<length a. toLowerCase a ! i
         = (if 65 \<le> (of_char (a ! i) :: nat) \<and> (of_char (a ! i) :: nat) \<le> 90
            then char_of (of_char (a ! i) + 32 :: nat) else a ! i)"
    by (simp add: toLowerCase_def lowerChar_def Let_def)
qed (simp_all add: getCoinAddressBySymbol_def requestCoinData_def toUpperCase_def
      toLowerCase_def Let_def)


theorem lookups_normalise_case_witness:
  "isAscii (units ''pulse'') \<and> isAscii (units ''PuLsE'')
   \<and> sameIgnoringCase (units ''pulse'') (units ''PuLsE'')
   \<and> getCoinAddressBySymbol fixtureWorld (units ''pulse'')
       = getCoinAddressBySymbol fixtureWorld (units ''PuLsE'')
   \<and> getCoinAddressBySymbol fixtureWorld (units ''pulse'')
       = ([Request ZORA_SUBGRAPH_URL ''GetCoinBySymbol'' [(''symbol'', units ''PULSE'')]],
          Some pulseAddress)
   \<and> \<not> sameIgnoringCase (units ''pulse'') (units ''pulsf'')
   \<and> fst (getCoinAddressBySymbol fixtureWorld (units ''pulse''))
       \<noteq> fst (getCoinAddressBySymbol fixtureWorld (units ''pulsf''))
   \<and> \<not> isAscii [0x63, 0x61, 0x66, 0xE9]
   \<and> fst (getCoinAddressBySymbol fixtureWorld [0x63, 0x61, 0x66, 0xE9])
       = [Request ZORA_SUBGRAPH_URL ''GetCoinBySymbol'' [(''symbol'', [0x43, 0x41, 0x46, 0xC9])]]
   \<and> fst (getCoinAddressBySymbol fixtureWorld [0x73, 0x74, 0x72, 0x61, 0xDF, 0x65])
       = [Request ZORA_SUBGRAPH_URL ''GetCoinBySymbol''
           [(''symbol'', [0x53, 0x54, 0x52, 0x41, 0x53, 0x53, 0x45])]]
   \<and> sameAddressIgnoringCase pulseAddress ''0xc0FFEE0000000000000000000000000000000001''
   \<and> requestCoinData fixtureWorld pulseAddress
       = requestCoinData fixtureWorld ''0xc0FFEE0000000000000000000000000000000001''
   \<and> fst (requestCoinData fixtureWorld pulseAddress)
       = [Request ZORA_SUBGRAPH_URL ''GetCoinData''
           [(''address'', units ''0xc0ffee0000000000000000000000000000000001'')]]
   \<and> \<not> sameAddressIgnoringCase pulseAddress otherAddress
   \<and> fst (requestCoinData fixtureWorld pulseAddress)
       \<noteq> fst (requestCoinData fixtureWorld otherAddress)"
proof -
  let ?cafe = "[0x63, 0x61, 0x66, 0xE9] :: jsstring"
  let ?strasse = "[0x73, 0x74, 0x72, 0x61, 0xDF, 0x65] :: jsstring"
  let ?variant = "''0xc0FFEE0000000000000000000000000000000001''"
  have U: "unicodeToUpperCase fixtureWorld = sampleUnicodeUpper"
    by (simp add: fixtureWorld_def)
  have a1: "isAscii (units ''pulse'')" and a2: "isAscii (units ''PuLsE'')"
    and a3: "isAscii (units ''pulsf'')"
    by (simp_all add: isAscii_def units_def)
  have v: "sameIgnoringCase (units ''pulse'') (units ''PuLsE'')"
    by (simp add: sameIgnoringCase_def caseVariant_def units_def)
  have nv: "\<not> sameIgnoringCase (units ''pulse'') (units ''pulsf'')"
    by (simp add: sameIgnoringCase_def caseVariant_def units_def)
  have n1: "\<not> isAscii ?cafe" and n2: "\<not> isAscii ?strasse"
    by (simp_all add: isAscii_def)
  have av: "sameAddressIgnoringCase pulseAddress ?variant"
    by (simp add: sameAddressIgnoringCase_def caseVariantChar_def pulseAddress_def)
  have nav: "\<not> sameAddressIgnoringCase pulseAddress otherAddress"
    by (simp add: sameAddressIgnoringCase_def caseVariantChar_def pulseAddress_def
        otherAddress_def)
  have r: "snd (getCoinAddressBySymbol fixtureWorld (units ''pulse'')) = Some pulseAddress"
    by (simp add: getCoinAddressBySymbol_def fixtureWorld_def str_defs)
  have up: "toUpperCase sampleUnicodeUpper (units ''pulse'') = units ''PULSE''"
    by (simp add: str_defs)
  note t1 = lookups_normalise_case [where w = fixtureWorld and U = sampleUnicodeUpper
      and s = "units ''pulse''" and s' = "units ''PuLsE''" and a = pulseAddress
      and a' = ?variant, unfolded U]
  note t2 = lookups_normalise_case [where w = fixtureWorld and U = sampleUnicodeUpper
      and s = "units ''pulse''" and s' = "units ''pulsf''" and a = pulseAddress
      and a' = otherAddress, unfolded U]
  note t3 = lookups_normalise_case [where w = fixtureWorld and U = sampleUnicodeUpper
      and s = ?cafe and s' = ?cafe and a = pulseAddress and a' = pulseAddress, unfolded U]
  note t4 = lookups_normalise_case [where w = fixtureWorld and U = sampleUnicodeUpper
      and s = ?strasse and s' = ?strasse and a = pulseAddress and a' = pulseAddress, unfolded U]
  from t1 a1 a2 v
  have e: "getCoinAddressBySymbol fixtureWorld (units ''pulse'')
       = getCoinAddressBySymbol fixtureWorld (units ''PuLsE'')"
    by blast
  from t1 have "fst (getCoinAddressBySymbol fixtureWorld (units ''pulse''))
       = [Request ZORA_SUBGRAPH_URL ''GetCoinBySymbol''
           [(''symbol'', toUpperCase sampleUnicodeUpper (units ''pulse''))]]"
    by blast
  with r up have f: "getCoinAddressBySymbol fixtureWorld (units ''pulse'')
       = ([Request ZORA_SUBGRAPH_URL ''GetCoinBySymbol'' [(''symbol'', units ''PULSE'')]],
          Some pulseAddress)"
    by (simp add: prod_eq_iff)
  from t2 a1 a3 nv
  have d: "fst (getCoinAddressBySymbol fixtureWorld (units ''pulse''))
       \<noteq> fst (getCoinAddressBySymbol fixtureWorld (units ''pulsf''))"
    by blast
  from t3 n1 have "fst (getCoinAddressBySymbol fixtureWorld ?cafe)
       = [Request ZORA_SUBGRAPH_URL ''GetCoinBySymbol'' [(''symbol'', sampleUnicodeUpper ?cafe)]]"
    by simp
  then have c: "fst (getCoinAddressBySymbol fixtureWorld ?cafe)
       = [Request ZORA_SUBGRAPH_URL ''GetCoinBySymbol'' [(''symbol'', [0x43, 0x41, 0x46, 0xC9])]]"
    by (simp add: sampleUnicodeUpper_def upperUnit_def)
  from t4 n2 have "fst (getCoinAddressBySymbol fixtureWorld ?strasse)
       = [Request ZORA_SUBGRAPH_URL ''GetCoinBySymbol''
           [(''symbol'', sampleUnicodeUpper ?strasse)]]"
    by simp
  then have g: "fst (getCoinAddressBySymbol fixtureWorld ?strasse)
       = [Request ZORA_SUBGRAPH_URL ''GetCoinBySymbol''
           [(''symbol'', [0x53, 0x54, 0x52, 0x41, 0x53, 0x53, 0x45])]]"
    by (simp add: sampleUnicodeUpper_def upperUnit_def)
  from t1 av have q: "requestCoinData fixtureWorld pulseAddress
       = requestCoinData fixtureWorld ?variant"
    by blast
  from t1 have "fst (requestCoinData fixtureWorld pulseAddress)
       = [Request ZORA_SUBGRAPH_URL ''GetCoinData'' [(''address'', units (toLowerCase pulseAddress))]]"
    by blast
  moreover have "toLowerCase pulseAddress = ''0xc0ffee0000000000000000000000000000000001''"
    by (simp add: pulseAddress_def toLowerCase_def lowerChar_def char_of_def bit_Suc_0_iff)
  ultimately have h: "fst (requestCoinData fixtureWorld pulseAddress)
       = [Request ZORA_SUBGRAPH_URL ''GetCoinData''
           [(''address'', units ''0xc0ffee0000000000000000000000000000000001'')]]"
    by (simp only:)
  from t2 nav have k: "fst (requestCoinData fixtureWorld pulseAddress)
       \<noteq> fst (requestCoinData fixtureWorld otherAddress)"
    by blast
  from a1 a2 v e f nv d n1 c g av q h nav k show ?thesis by blast
qed

text \<open>The pool lookup keeps the spelling of the address it was given.\<close>

lemma getPoolArgs_keep_case:
  "getPoolArgs ''0xC0FFEE'' = (''0x0x4200000000000000000000000000000000000006'', ''0x0xC0FFEE'')
   \<and> getPoolArgs ''0xc0ffee'' = (''0x0x4200000000000000000000000000000000000006'', ''0x0xc0ffee'')"
  by (simp add: getPoolArgs_def canonicalOrder_def WETH_ADDRESS_def str_defs)

section \<open>The addresses of the chain reads\<close>

text \<open>
  C10. The \<open>getPool\<close> call of \<open>getUniswapV3PoolAddress\<close> takes each member
  of the ordered pair behind a prepended \<open>0x\<close>, and once a pool is found
  \<open>getCoinData\<close> issues the \<open>slot0\<close> and \<open>liquidity\<close> reads at the pool
  address behind a prepended \<open>0x\<close>. So a token address that starts with
  \<open>0x\<close> reaches the factory as \<open>0x0x...\<close>, beside WETH as \<open>0x0x42...\<close>.
\<close>

theorem chain_calls_prepend_0x:
  "fst (getUniswapV3PoolAddress w t)
     = [ReadContract UNISWAP_V3_FACTORY_ADDRESS ''getPool''
         [Str (''0x'' @ fst (canonicalOrder t WETH_ADDRESS)),
          Str (''0x'' @ snd (canonicalOrder t WETH_ADDRESS)), Num 3000]]
   \<and> (getCoinMeta w (toLowerCase t) = Some (c # cs)
        \<and> snd (getUniswapV3PoolAddress w t) = Some p \<and> p \<noteq> [] \<longrightarrow>
       fst (getCoinData w t)
         = fst (requestCoinData w t) @ fst (getUniswapV3PoolAddress w t)
           @ [ReadContract (''0x'' @ p) ''slot0'' [], ReadContract (''0x'' @ p) ''liquidity'' []])
   \<and> (t = ''0x'' @ r \<longrightarrow>
       set [fst (getPoolArgs t), snd (getPoolArgs t)]
         = {''0x0x'' @ r, ''0x0x4200000000000000000000000000000000000006''})"
proof (intro conjI impI)
  show "fst (getUniswapV3PoolAddress w t)
     = [ReadContract UNISWAP_V3_FACTORY_ADDRESS ''getPool''
         [Str (''0x'' @ fst (canonicalOrder t WETH_ADDRESS)),
          Str (''0x'' @ snd (canonicalOrder t WETH_ADDRESS)), Num 3000]]"
    by (simp add: getUniswapV3PoolAddress_eq getPoolArgs_eq)
next
  assume "getCoinMeta w (toLowerCase t) = Some (c # cs)
        \<and> snd (getUniswapV3PoolAddress w t) = Some p \<and> p \<noteq> []"
  then show "fst (getCoinData w t)
         = fst (requestCoinData w t) @ fst (getUniswapV3PoolAddress w t)
           @ [ReadContract (''0x'' @ p) ''slot0'' [], ReadContract (''0x'' @ p) ''liquidity'' []]"
    by (cases "getUniswapV3PoolAddress w t")
       (auto simp: getCoinData_def requestCoinData_def Let_def split: option.splits)
next
  assume "t = ''0x'' @ r"
  then show "set [fst (getPoolArgs t), snd (getPoolArgs t)]
         = {''0x0x'' @ r, ''0x0x4200000000000000000000000000000000000006''}"
    by (auto simp: getPoolArgs_eq canonicalOrder_def WETH_ADDRESS_def)
qed

theorem chain_calls_prepend_0x_witness:
  "getCoinMeta fixtureWorld (toLowerCase pulseAddress)
     = Some [\<lparr>meta_totalSupply = 2 * 10 ^ 18, meta_holderCount = 7\<rparr>]
   \<and> snd (getUniswapV3PoolAddress fixtureWorld pulseAddress) = Some pulsePool
   \<and> pulsePool \<noteq> []
   \<and> pulseAddress = ''0x'' @ ''C0ffee0000000000000000000000000000000001''
   \<and> fst (getCoinData fixtureWorld pulseAddress)
       = [Request ''https://api.zora.co/graphql'' ''GetCoinData''
            [(''address'', units ''0xc0ffee0000000000000000000000000000000001'')],
          ReadContract ''0x1F98431c8aD98523631AE4a59f267346ea31F984'' ''getPool''
            [Str ''0x0x4200000000000000000000000000000000000006'',
             Str ''0x0xC0ffee0000000000000000000000000000000001'', Num 3000],
          ReadContract ''0x0x9999999999999999999999999999999999999999'' ''slot0'' [],
          ReadContract ''0x0x9999999999999999999999999999999999999999'' ''liquidity'' []]"
proof -
  have m: "getCoinMeta fixtureWorld (toLowerCase pulseAddress)
     = Some [\<lparr>meta_totalSupply = 2 * 10 ^ 18, meta_holderCount = 7\<rparr>]"
    by (simp add: fixtureWorld_def)
  have p: "snd (getUniswapV3PoolAddress fixtureWorld pulseAddress) = Some pulsePool"
    by (simp add: getUniswapV3PoolAddress_eq getPoolArgs_def canonicalOrder_def world_defs str_defs)
  have n: "pulsePool \<noteq> []" by (simp add: pulsePool_def)
  have x: "pulseAddress = ''0x'' @ ''C0ffee0000000000000000000000000000000001''"
    by (simp add: pulseAddress_def)
  have o: "canonicalOrder pulseAddress WETH_ADDRESS = (WETH_ADDRESS, pulseAddress)"
    by (simp add: world_defs str_defs canonicalOrder_def)
  from chain_calls_prepend_0x [where w = fixtureWorld and t = pulseAddress and p = pulsePool
      and c = "\<lparr>meta_totalSupply = 2 * 10 ^ 18, meta_holderCount = 7\<rparr>" and cs = "[]"] m p n
  have "fst (getCoinData fixtureWorld pulseAddress)
         = fst (requestCoinData fixtureWorld pulseAddress)
           @ [ReadContract UNISWAP_V3_FACTORY_ADDRESS ''getPool''
               [Str (''0x'' @ fst (canonicalOrder pulseAddress WETH_ADDRESS)),
                Str (''0x'' @ snd (canonicalOrder pulseAddress WETH_ADDRESS)), Num 3000]]
           @ [ReadContract (''0x'' @ pulsePool) ''slot0'' [],
              ReadContract (''0x'' @ pulsePool) ''liquidity'' []]"
    by simp
  then have "fst (getCoinData fixtureWorld pulseAddress)
       = [Request ''https://api.zora.co/graphql'' ''GetCoinData''
            [(''address'', units ''0xc0ffee0000000000000000000000000000000001'')],
          ReadContract ''0x1F98431c8aD98523631AE4a59f267346ea31F984'' ''getPool''
            [Str ''0x0x4200000000000000000000000000000000000006'',
             Str ''0x0xC0ffee0000000000000000000000000000000001'', Num 3000],
          ReadContract ''0x0x9999999999999999999999999999999999999999'' ''slot0'' [],
          ReadContract ''0x0x9999999999999999999999999999999999999999'' ''liquidity'' []]"
    by (simp add: o requestCoinData_def) (simp add: world_defs str_defs)
  with m p n x show ?thesis by blast
qed

section \<open>Failures of the pipeline\<close>

text \<open>
  C2, as amended. When the symbol resolves to a coin address and the factory
  answers the zero address for that coin, \<open>getCoinData\<close> returns \<open>null\<close>
  (no stats record, zero-valued or other) and the image route answers
  \<open>Error fetching data\<close> with status 500.
\<close>

theorem missing_pool_is_null_and_500:
  assumes "findCoinBySymbol w (toUpperCase (unicodeToUpperCase w) s) = Some (a # as)"
    and "a \<noteq> []"
    and "readPoolAddress w UNISWAP_V3_FACTORY_ADDRESS (fst (getPoolArgs a)) (snd (getPoolArgs a)) 3000
           = Some ZERO_ADDRESS"
  shows "snd (getCoinData w a) = None
         \<and> snd (imageRoute w s) = Text ''Error fetching data'' 500"
proof -
  have d: "snd (getCoinData w a) = None"
    using assms(3)
    by (simp add: getCoinData_def requestCoinData_def getUniswapV3PoolAddress_eq Let_def
        split: option.splits list.splits)
  have "snd (getCoinAddressBySymbol w s) = Some a"
    using assms(1) by (simp add: getCoinAddressBySymbol_def Let_def)
  then have "snd (imageRoute w s) = Text ''Error fetching data'' 500"
    using assms(2) d
    by (cases "getCoinAddressBySymbol w s"; cases "getCoinData w a")
       (simp add: imageRoute_def Let_def)
  with d show ?thesis by simp
qed

theorem missing_pool_is_null_and_500_witness:
  "findCoinBySymbol worldNoPool (toUpperCase (unicodeToUpperCase worldNoPool) (units ''pulse''))
     = Some [pulseAddress]
   \<and> pulseAddress \<noteq> []
   \<and> readPoolAddress worldNoPool UNISWAP_V3_FACTORY_ADDRESS (fst (getPoolArgs pulseAddress))
        (snd (getPoolArgs pulseAddress)) 3000 = Some ZERO_ADDRESS
   \<and> snd (getCoinData worldNoPool pulseAddress) = None
   \<and> snd (imageRoute worldNoPool (units ''pulse'')) = Text ''Error fetching data'' 500"
proof -
  have f: "findCoinBySymbol worldNoPool
             (toUpperCase (unicodeToUpperCase worldNoPool) (units ''pulse'')) = Some [pulseAddress]"
    by (simp add: worldNoPool_def fixtureWorld_def str_defs)
  have n: "pulseAddress \<noteq> []" by (simp add: pulseAddress_def)
  have z: "readPoolAddress worldNoPool UNISWAP_V3_FACTORY_ADDRESS (fst (getPoolArgs pulseAddress))
        (snd (getPoolArgs pulseAddress)) 3000 = Some ZERO_ADDRESS"
    by (simp add: worldNoPool_def)
  from missing_pool_is_null_and_500 [OF f n z] f n z show ?thesis by simp
qed

text \<open>
  C2, as stated, fails: the code has no error kinds. A missing pool, a chain
  read that throws and a subgraph that throws all end in the same \<open>null\<close>
  and the same answer of the route.
\<close>

theorem missing_pool_same_as_read_error:
  "readPoolAddress worldNoPool UNISWAP_V3_FACTORY_ADDRESS (fst (getPoolArgs pulseAddress))
        (snd (getPoolArgs pulseAddress)) 3000 = Some ZERO_ADDRESS
   \<and> snd (getUniswapV3PoolAddress worldReadFails pulseAddress) = Some pulsePool
   \<and> readSlot0 worldReadFails (''0x'' @ pulsePool) = None
   \<and> getCoinMeta worldSubgraphDown (toLowerCase pulseAddress) = None
   \<and> snd (getCoinData worldNoPool pulseAddress) = snd (getCoinData worldReadFails pulseAddress)
   \<and> snd (getCoinData worldNoPool pulseAddress) = snd (getCoinData worldSubgraphDown pulseAddress)
   \<and> snd (imageRoute worldNoPool (units ''pulse'')) = snd (imageRoute worldReadFails (units ''pulse''))
   \<and> snd (imageRoute worldNoPool (units ''pulse'')) = snd (imageRoute worldSubgraphDown (units ''pulse''))"
  by (simp add: world_defs str_defs pipe_defs Let_def)

section \<open>The price fixture\<close>

lemma fixture_price:
  "mulN (divN (squareN (numberOfNat (unat (2 ^ 96 :: 160 word)))) two_pow_192) lit_1e18
     = Fin (10 ^ 18)"
  by (simp add: numberOfNat_def squareN_def two_pow_192_eq lit_1e18_eq, code_simp)

lemma fixture_supply: "humanSupply (2 * 10 ^ 18) = Fin 2"
  by (simp add: humanSupply_def numberOfNat_def lit_1e18_eq, code_simp)

lemma fixture_cap: "mulN (Fin (10 ^ 18)) (Fin 2) = Fin (2 * 10 ^ 18)"
  by (simp, code_simp)

lemma fixture_liquidity:
  "mulN (numberOfEther (unat (5 * 10 ^ 18 :: 128 word))) (Fin (10 ^ 18)) = Fin (5 * 10 ^ 18)"
  by (simp add: numberOfEther_def, code_simp)

lemma fixture_volume: "mulN (Fin (5 * 10 ^ 18)) lit_0_1 = Fin (5 * 10 ^ 17)"
  by (simp add: lit_0_1_eq, code_simp)

lemma fixture_holders: "orZero (numberOfNat 7) = Fin 7"
  by (simp add: orZero_def numberOfNat_def, code_simp)

lemma fixture_stats:
  "computeStats (2 ^ 96) (5 * 10 ^ 18) (humanSupply (2 * 10 ^ 18)) (orZero (numberOfNat 7))
     = \<lparr>price = Fin (10 ^ 18), volume24h = Fin (5 * 10 ^ 17), liquidity = Fin (5 * 10 ^ 18),
        holderCount = Fin 7, marketCap = Fin (2 * 10 ^ 18)\<rparr>"
  by (simp only: computeStats_def Let_def fixture_price fixture_supply fixture_cap
      fixture_liquidity fixture_volume fixture_holders)

lemma fixture_run:
  "snd (getCoinData fixtureWorld pulseAddress)
     = Some (computeStats (2 ^ 96) (5 * 10 ^ 18) (humanSupply (2 * 10 ^ 18))
              (orZero (numberOfNat 7)))"
  using getCoinData_success [of fixtureWorld pulseAddress
      "\<lparr>meta_totalSupply = 2 * 10 ^ 18, meta_holderCount = 7\<rparr>" "[]" pulsePool "2 ^ 96" "5 * 10 ^ 18"]
  by (simp add: world_defs str_defs getPoolArgs_def canonicalOrder_def)

text \<open>
  C1, as amended. With \<open>sqrtPriceX96 = 2^96\<close> and \<open>totalSupply = 2 * 10^18\<close>,
  whatever the liquidity and the holder count, the price is \<open>10^18\<close> (the
  ratio \<open>1\<close> times \<open>1e18\<close>) and the market cap is \<open>2 * 10^18\<close>.
\<close>

theorem fixture_price_and_market_cap:
  "price (computeStats (2 ^ 96) l (humanSupply (2 * 10 ^ 18)) h) = Fin (10 ^ 18)
   \<and> marketCap (computeStats (2 ^ 96) l (humanSupply (2 * 10 ^ 18)) h) = Fin (2 * 10 ^ 18)"
  by (simp only: computeStats_def Let_def fixture_price fixture_supply fixture_cap
      coin_stats.simps simp_thms)

text \<open>
  C1, as stated, fails: on the fixture \<open>getCoinData\<close> gives neither the price
  \<open>1\<close> nor the market cap \<open>2\<close>.
\<close>

theorem fixture_price_is_not_one:
  "map_option price (snd (getCoinData fixtureWorld pulseAddress)) \<noteq> Some (Fin 1)
   \<and> map_option marketCap (snd (getCoinData fixtureWorld pulseAddress)) \<noteq> Some (Fin 2)"
  unfolding fixture_run fixture_stats by simp

text \<open>
  C5. In every stats record \<open>getCoinData\<close> returns, \<open>volume24h\<close> is the
  product \<open>0.1 * liquidity\<close> of the numbers \<open>0.1\<close> and \<open>liquidity\<close>, and
  \<open>liquidity\<close> is a finite number (so that \<open>===\<close> holds between the two).
\<close>

theorem volume_is_tenth_of_liquidity:
  assumes "snd (getCoinData w a) = Some s"
  shows "volume24h s = mulN lit_0_1 (liquidity s) \<and> (\<exists>r. liquidity s = Fin r \<and> 0 \<le> r)"
proof -
  obtain sp l ts h where s: "s = computeStats sp l ts h"
    using getCoinData_SomeD [OF assms] by blast
  have v: "volume24h s = mulN lit_0_1 (liquidity s)"
    by (simp add: s computeStats_def Let_def mulN_commute)
  obtain p where p: "price s = Fin p" "0 \<le> p" "p \<le> 2 ^ 188"
    using price_finite [of sp] by (auto simp: s computeStats_def Let_def)
  have "unat l < 2 ^ 128" using unsigned_less [of l, where ?'a = nat] by simp
  then have "unat l \<le> 2 ^ 128" by simp
  then obtain e where e: "numberOfEther (unat l) = Fin e" "0 \<le> e" "e \<le> 2 ^ 128"
    using numberOfEther_bounded [of "unat l" 128] by auto
  obtain r where "mulN (Fin e) (Fin p) = Fin r" "0 \<le> r"
    using mulN_bounded [of e 128 p 188] e p by auto
  moreover have "liquidity s = mulN (numberOfEther (unat l)) (price s)"
    by (simp add: s computeStats_def Let_def)
  ultimately have "\<exists>r. liquidity s = Fin r \<and> 0 \<le> r" using e p by simp
  with v show ?thesis by simp
qed

theorem volume_is_tenth_of_liquidity_witness:
  "snd (getCoinData fixtureWorld pulseAddress)
     = Some \<lparr>price = Fin (10 ^ 18), volume24h = Fin (5 * 10 ^ 17), liquidity = Fin (5 * 10 ^ 18),
        holderCount = Fin 7, marketCap = Fin (2 * 10 ^ 18)\<rparr>
   \<and> Fin (5 * 10 ^ 17) = mulN lit_0_1 (Fin (5 * 10 ^ 18))"
proof -
  have h: "snd (getCoinData fixtureWorld pulseAddress)
     = Some \<lparr>price = Fin (10 ^ 18), volume24h = Fin (5 * 10 ^ 17), liquidity = Fin (5 * 10 ^ 18),
        holderCount = Fin 7, marketCap = Fin (2 * 10 ^ 18)\<rparr>"
    unfolding fixture_run fixture_stats by (rule refl)
  from volume_is_tenth_of_liquidity [OF h]
  have "Fin (5 * 10 ^ 17) = mulN lit_0_1 (Fin (5 * 10 ^ 18))"
    by (simp only: coin_stats.select_convs)
  with h show ?thesis by (rule conjI)
qed

text \<open>The product is a rounded one: a tenth of \<open>3\<close> is not a number.\<close>

lemma volume_rounded:
  "liquidity (computeStats (2 ^ 96) 3 ts h) = Fin 3
   \<and> volume24h (computeStats (2 ^ 96) 3 ts h) = Fin (1351079888211149 / 4503599627370496)"
proof -
  have "mulN (numberOfEther (unat (3 :: 128 word))) (Fin (10 ^ 18)) = Fin 3"
    by (simp add: numberOfEther_def, code_simp)
  moreover have "mulN (Fin 3) lit_0_1 = Fin (1351079888211149 / 4503599627370496)"
    by (simp add: lit_0_1_eq, code_simp)
  ultimately show ?thesis
    by (simp only: computeStats_def Let_def fixture_price coin_stats.select_convs simp_thms)
qed

lemma roundDouble_zero: "roundDouble 0 = Fin 0"
  by (simp add: roundDouble_def)

section \<open>Zero liquidity, zero supply\<close>

text \<open>
  C6. When every lookup succeeds and the pool's liquidity is \<open>0\<close>, whatever
  \<open>sqrtPriceX96\<close> is, \<open>getCoinData\<close> returns a stats record, and its
  \<open>liquidity\<close> and \<open>volume24h\<close> are both \<open>0\<close>.
\<close>

theorem zero_liquidity_gives_zero:
  assumes "getCoinMeta w (toLowerCase a) = Some (c # cs)"
    and "readPoolAddress w UNISWAP_V3_FACTORY_ADDRESS (fst (getPoolArgs a)) (snd (getPoolArgs a)) 3000
           = Some p"
    and "p \<noteq> ZERO_ADDRESS" and "p \<noteq> []"
    and "readSlot0 w (''0x'' @ p) = Some sp"
    and "readLiquidity w (''0x'' @ p) = Some 0"
  shows "\<exists>s. snd (getCoinData w a) = Some s \<and> liquidity s = Fin 0 \<and> volume24h s = Fin 0"
proof -
  let ?s = "computeStats sp 0 (humanSupply (meta_totalSupply c))
              (orZero (numberOfNat (meta_holderCount c)))"
  have run: "snd (getCoinData w a) = Some ?s"
    using assms by (rule getCoinData_success)
  let ?p = "mulN (divN (squareN (numberOfNat (unat sp))) two_pow_192) lit_1e18"
  obtain r where r: "?p = Fin r" using price_finite [of sp] by blast
  have e: "numberOfEther 0 = Fin 0"
    by (simp add: numberOfEther_def roundDouble_zero)
  have "liquidity ?s = mulN (numberOfEther 0) ?p"
    by (simp add: computeStats_def Let_def)
  also have "\<dots> = Fin 0" unfolding e r by (simp add: roundDouble_zero)
  finally have l: "liquidity ?s = Fin 0" .
  have "volume24h ?s = mulN (liquidity ?s) lit_0_1"
    by (simp add: computeStats_def Let_def)
  also have "\<dots> = Fin 0" unfolding l lit_0_1_eq by (simp add: roundDouble_zero)
  finally have "volume24h ?s = Fin 0" .
  with run l show ?thesis by blast
qed

theorem zero_liquidity_gives_zero_witness:
  "getCoinMeta worldZeroLiquidity (toLowerCase pulseAddress)
     = Some [\<lparr>meta_totalSupply = 2 * 10 ^ 18, meta_holderCount = 7\<rparr>]
   \<and> readPoolAddress worldZeroLiquidity UNISWAP_V3_FACTORY_ADDRESS (fst (getPoolArgs pulseAddress))
        (snd (getPoolArgs pulseAddress)) 3000 = Some pulsePool
   \<and> pulsePool \<noteq> ZERO_ADDRESS \<and> pulsePool \<noteq> []
   \<and> readSlot0 worldZeroLiquidity (''0x'' @ pulsePool) = Some (2 ^ 96)
   \<and> readLiquidity worldZeroLiquidity (''0x'' @ pulsePool) = Some 0
   \<and> (\<exists>s. snd (getCoinData worldZeroLiquidity pulseAddress) = Some s
          \<and> liquidity s = Fin 0 \<and> volume24h s = Fin 0)"
proof -
  have m: "getCoinMeta worldZeroLiquidity (toLowerCase pulseAddress)
     = Some [\<lparr>meta_totalSupply = 2 * 10 ^ 18, meta_holderCount = 7\<rparr>]"
    by (simp add: worldZeroLiquidity_def fixtureWorld_def)
  have p: "readPoolAddress worldZeroLiquidity UNISWAP_V3_FACTORY_ADDRESS
        (fst (getPoolArgs pulseAddress)) (snd (getPoolArgs pulseAddress)) 3000 = Some pulsePool"
    by (simp add: world_defs str_defs getPoolArgs_def canonicalOrder_def)
  have z: "pulsePool \<noteq> ZERO_ADDRESS" by (simp add: world_defs)
  have n: "pulsePool \<noteq> []" by (simp add: pulsePool_def)
  have s: "readSlot0 worldZeroLiquidity (''0x'' @ pulsePool) = Some (2 ^ 96)"
    by (simp add: worldZeroLiquidity_def fixtureWorld_def)
  have l: "readLiquidity worldZeroLiquidity (''0x'' @ pulsePool) = Some 0"
    by (simp add: worldZeroLiquidity_def)
  from zero_liquidity_gives_zero [OF m p z n s l] m p z n s l show ?thesis by blast
qed

text \<open>
  C7. When every lookup succeeds and the coin's \<open>totalSupply\<close> is \<open>0\<close>,
  whatever the pool state is, the \<open>marketCap\<close> of the stats record is \<open>0\<close>.
\<close>

theorem zero_supply_gives_zero_market_cap:
  assumes "getCoinMeta w (toLowerCase a) = Some (c # cs)" and "meta_totalSupply c = 0"
    and "readPoolAddress w UNISWAP_V3_FACTORY_ADDRESS (fst (getPoolArgs a)) (snd (getPoolArgs a)) 3000
           = Some p"
    and "p \<noteq> ZERO_ADDRESS" and "p \<noteq> []"
    and "readSlot0 w (''0x'' @ p) = Some sp"
    and "readLiquidity w (''0x'' @ p) = Some l"
  shows "\<exists>s. snd (getCoinData w a) = Some s \<and> marketCap s = Fin 0"
proof -
  let ?s = "computeStats sp l (humanSupply (meta_totalSupply c))
              (orZero (numberOfNat (meta_holderCount c)))"
  have run: "snd (getCoinData w a) = Some ?s"
    using assms(1,3-7) by (rule getCoinData_success)
  let ?p = "mulN (divN (squareN (numberOfNat (unat sp))) two_pow_192) lit_1e18"
  obtain r where r: "?p = Fin r" using price_finite [of sp] by blast
  have h: "humanSupply (meta_totalSupply c) = Fin 0"
    by (simp add: assms(2) humanSupply_def numberOfNat_def lit_1e18_eq roundDouble_zero)
  have "marketCap ?s = mulN ?p (humanSupply (meta_totalSupply c))"
    by (simp add: computeStats_def Let_def)
  also have "\<dots> = Fin 0" unfolding h r by (simp add: roundDouble_zero)
  finally have "marketCap ?s = Fin 0" .
  with run show ?thesis by blast
qed

theorem zero_supply_gives_zero_market_cap_witness:
  "getCoinMeta worldZeroSupply (toLowerCase pulseAddress)
     = Some [\<lparr>meta_totalSupply = 0, meta_holderCount = 7\<rparr>]
   \<and> readPoolAddress worldZeroSupply UNISWAP_V3_FACTORY_ADDRESS (fst (getPoolArgs pulseAddress))
        (snd (getPoolArgs pulseAddress)) 3000 = Some pulsePool
   \<and> pulsePool \<noteq> ZERO_ADDRESS \<and> pulsePool \<noteq> []
   \<and> readSlot0 worldZeroSupply (''0x'' @ pulsePool) = Some (2 ^ 96)
   \<and> readLiquidity worldZeroSupply (''0x'' @ pulsePool) = Some (5 * 10 ^ 18)
   \<and> (\<exists>s. snd (getCoinData worldZeroSupply pulseAddress) = Some s \<and> marketCap s = Fin 0)"
proof -
  have m: "getCoinMeta worldZeroSupply (toLowerCase pulseAddress)
     = Some [\<lparr>meta_totalSupply = 0, meta_holderCount = 7\<rparr>]"
    by (simp add: worldZeroSupply_def)
  have t: "meta_totalSupply \<lparr>meta_totalSupply = 0, meta_holderCount = 7\<rparr> = 0" by simp
  have p: "readPoolAddress worldZeroSupply UNISWAP_V3_FACTORY_ADDRESS
        (fst (getPoolArgs pulseAddress)) (snd (getPoolArgs pulseAddress)) 3000 = Some pulsePool"
    by (simp add: world_defs str_defs getPoolArgs_def canonicalOrder_def)
  have z: "pulsePool \<noteq> ZERO_ADDRESS" by (simp add: world_defs)
  have n: "pulsePool \<noteq> []" by (simp add: pulsePool_def)
  have s: "readSlot0 worldZeroSupply (''0x'' @ pulsePool) = Some (2 ^ 96)"
    by (simp add: worldZeroSupply_def fixtureWorld_def)
  have l: "readLiquidity worldZeroSupply (''0x'' @ pulsePool) = Some (5 * 10 ^ 18)"
    by (simp add: worldZeroSupply_def fixtureWorld_def)
  from zero_supply_gives_zero_market_cap [OF m t p z n s l] m p z n s l show ?thesis by blast
qed

section \<open>Determinism\<close>

text \<open>
  C9. The stats depend on the four values read and on nothing else: two runs
  of \<open>getCoinData\<close>, in any two worlds and on any two coin addresses, that
  read the same \<open>sqrtPriceX96\<close>, \<open>liquidity\<close>, \<open>totalSupply\<close> and
  \<open>holderCount\<close> return the same stats record.
\<close>

theorem stats_depend_only_on_reads:
  assumes "getCoinMeta w (toLowerCase a) = Some (c # cs)"
    and "readPoolAddress w UNISWAP_V3_FACTORY_ADDRESS (fst (getPoolArgs a)) (snd (getPoolArgs a)) 3000
           = Some p"
    and "p \<noteq> ZERO_ADDRESS" and "p \<noteq> []"
    and "readSlot0 w (''0x'' @ p) = Some sp"
    and "readLiquidity w (''0x'' @ p) = Some l"
    and "getCoinMeta w' (toLowerCase a') = Some (c' # cs')"
    and "readPoolAddress w' UNISWAP_V3_FACTORY_ADDRESS (fst (getPoolArgs a')) (snd (getPoolArgs a')) 3000
           = Some p'"
    and "p' \<noteq> ZERO_ADDRESS" and "p' \<noteq> []"
    and "readSlot0 w' (''0x'' @ p') = Some sp"
    and "readLiquidity w' (''0x'' @ p') = Some l"
    and "meta_totalSupply c = meta_totalSupply c'"
    and "meta_holderCount c = meta_holderCount c'"
  shows "snd (getCoinData w a) = snd (getCoinData w' a')
         \<and> (\<exists>s. snd (getCoinData w a) = Some s)"
proof -
  have "snd (getCoinData w a)
          = Some (computeStats sp l (humanSupply (meta_totalSupply c))
                   (orZero (numberOfNat (meta_holderCount c))))"
    using assms(1-6) by (rule getCoinData_success)
  moreover have "snd (getCoinData w' a')
          = Some (computeStats sp l (humanSupply (meta_totalSupply c'))
                   (orZero (numberOfNat (meta_holderCount c'))))"
    using assms(7-12) by (rule getCoinData_success)
  ultimately show ?thesis using assms(13,14) by simp
qed

theorem stats_depend_only_on_reads_witness:
  "fixtureWorld \<noteq> otherWorld \<and> pulseAddress \<noteq> otherAddress \<and> pulsePool \<noteq> otherPool
   \<and> readSlot0 fixtureWorld (''0x'' @ pulsePool) = readSlot0 otherWorld (''0x'' @ otherPool)
   \<and> readLiquidity fixtureWorld (''0x'' @ pulsePool) = readLiquidity otherWorld (''0x'' @ otherPool)
   \<and> map_option hd (getCoinMeta fixtureWorld (toLowerCase pulseAddress))
       = map_option hd (getCoinMeta otherWorld (toLowerCase otherAddress))
   \<and> snd (getCoinData fixtureWorld pulseAddress) = snd (getCoinData otherWorld otherAddress)
   \<and> (\<exists>s. snd (getCoinData fixtureWorld pulseAddress) = Some s)"
proof -
  let ?c = "\<lparr>meta_totalSupply = 2 * 10 ^ 18, meta_holderCount = 7\<rparr>"
  have m: "getCoinMeta fixtureWorld (toLowerCase pulseAddress) = Some (?c # [])"
    by (simp add: fixtureWorld_def)
  have p: "readPoolAddress fixtureWorld UNISWAP_V3_FACTORY_ADDRESS
        (fst (getPoolArgs pulseAddress)) (snd (getPoolArgs pulseAddress)) 3000 = Some pulsePool"
    by (simp add: world_defs str_defs getPoolArgs_def canonicalOrder_def)
  have z: "pulsePool \<noteq> ZERO_ADDRESS" by (simp add: world_defs)
  have n: "pulsePool \<noteq> []" by (simp add: pulsePool_def)
  have s: "readSlot0 fixtureWorld (''0x'' @ pulsePool) = Some (2 ^ 96)"
    by (simp add: fixtureWorld_def)
  have l: "readLiquidity fixtureWorld (''0x'' @ pulsePool) = Some (5 * 10 ^ 18)"
    by (simp add: fixtureWorld_def)
  have m': "getCoinMeta otherWorld (toLowerCase otherAddress)
              = Some (?c # [\<lparr>meta_totalSupply = 1, meta_holderCount = 1\<rparr>])"
    by (simp add: otherWorld_def)
  have p': "readPoolAddress otherWorld UNISWAP_V3_FACTORY_ADDRESS
        (fst (getPoolArgs otherAddress)) (snd (getPoolArgs otherAddress)) 3000 = Some otherPool"
    by (simp add: otherWorld_def)
  have z': "otherPool \<noteq> ZERO_ADDRESS" by (simp add: world_defs)
  have n': "otherPool \<noteq> []" by (simp add: otherPool_def)
  have s': "readSlot0 otherWorld (''0x'' @ otherPool) = Some (2 ^ 96)"
    by (simp add: otherWorld_def)
  have l': "readLiquidity otherWorld (''0x'' @ otherPool) = Some (5 * 10 ^ 18)"
    by (simp add: otherWorld_def)
  have d: "fixtureWorld \<noteq> otherWorld"
  proof
    assume "fixtureWorld = otherWorld"
    then have "findCoinBySymbol fixtureWorld [] = findCoinBySymbol otherWorld []" by simp
    then show False by (simp add: fixtureWorld_def otherWorld_def units_def)
  qed
  have d2: "pulseAddress \<noteq> otherAddress" "pulsePool \<noteq> otherPool" by (simp_all add: world_defs)
  from stats_depend_only_on_reads [OF m p z n s l m' p' z' n' s' l' refl refl]
  have "snd (getCoinData fixtureWorld pulseAddress) = snd (getCoinData otherWorld otherAddress)"
    and "\<exists>s. snd (getCoinData fixtureWorld pulseAddress) = Some s"
    by blast+
  with d d2 s l s' l' m m' show ?thesis by simp
qed

end
